theory Spec2Isabelle
  imports Main
begin

section \<open>Promises, exceptions and JavaScript truthiness\<close>

text \<open>
  The extension is asynchronous TypeScript. A promise is modelled by the state it ends in:
  it resolves with a value, it rejects with an exception, or it is never settled
  (\<open>Pending\<close>); an \<^verbatim>\<open>await\<close> on a promise that stays pending never returns.

  Every \<^verbatim>\<open>throw\<close> is a value of \<open>error\<close>. The two errors of \<^verbatim>\<open>getRepository\<close> are
  plain \<^verbatim>\<open>Error\<close> objects whose message is looked up by \<^verbatim>\<open>localize\<close> under the keys
  \<^verbatim>\<open>extension.sources.repositoryNotFoundInPath\<close> (followed by the path) and
  \<^verbatim>\<open>extension.sources.repositoriesEmpty\<close>; the constructor records the key and the path.
  \<open>TypeError\<close> is what JavaScript throws on reading a property of \<^verbatim>\<open>undefined\<close>;
  \<open>Thrown\<close> is an exception raised by a callback the caller supplied.
\<close>

datatype error =
    RepositoryNotFoundInPath string
  | RepositoriesEmpty
  | TypeError
  | Thrown string

datatype 'a promise = Pending | Resolved 'a | Rejected error

text \<open>A string or \<^verbatim>\<open>undefined\<close> is truthy when it is a non-empty string.\<close>

definition truthy :: "string option \<Rightarrow> bool" where
  "truthy s = (case s of None \<Rightarrow> False | Some t \<Rightarrow> t \<noteq> [])"

text \<open>\<^verbatim>\<open>a || b\<close> on values that are strings or \<^verbatim>\<open>undefined\<close>.\<close>

definition orElse :: "string option \<Rightarrow> string option \<Rightarrow> string option" where
  "orElse a b = (if truthy a then a else b)"

text \<open>The result of a callback that may throw, as the outcome of an \<^verbatim>\<open>async\<close> function.\<close>

definition returned :: "error + 'a \<Rightarrow> 'a promise" where
  "returned r = (case r of Inl e \<Rightarrow> Rejected e | Inr v \<Rightarrow> Resolved v)"

section \<open>Repository resolution (\<^verbatim>\<open>getRepository\<close>)\<close>

text \<open>
  The object model of the version-control extension, as far as \<^verbatim>\<open>getRepository\<close> reads it.
  Calls of \<^verbatim>\<open>output.appendLine\<close> write to a log channel and are left out.
\<close>

record Uri =
  fsPath :: string

record Arg =
  arg_rootUri :: Uri

record Branch =
  branch_name :: "string option"
  branch_commit :: "string option"

record Change =
  change_uri :: Uri

record RepositoryState =
  HEAD :: "Branch option"
  workingTreeChanges :: "Change list"
  mergeChanges :: "Change list"
  indexChanges :: "Change list"

record Repository =
  rootUri :: Uri
  state :: RepositoryState

record API =
  repositories :: "Repository list"

record WorkspaceFolder =
  folder_uri :: Uri
  folder_name :: string

text \<open>
  The items of a quick pick: the host's \<^verbatim>\<open>QuickPickItem\<close>, extended by \<^verbatim>\<open>index\<close> for the
  repository chooser and by \<^verbatim>\<open>placeholder\<close> for the prompts.
\<close>

record QuickPickItem =
  label :: string
  description :: "string option"
  detail :: "string option"
  alwaysShow :: "bool option"

record RepositoryItem = QuickPickItem +
  index :: nat

record Item = QuickPickItem +
  placeholder :: "string option"

definition hasChanges :: "Repository \<Rightarrow> bool" where
  "hasChanges repo \<longleftrightarrow>
     length (workingTreeChanges (state repo)) \<noteq> 0 \<or>
     length (mergeChanges (state repo)) \<noteq> 0 \<or>
     length (indexChanges (state repo)) \<noteq> 0"

text \<open>\<^verbatim>\<open>arg && arg._rootUri.fsPath\<close>: the explicit target, when there is a non-empty one.\<close>

definition explicitTarget :: "Arg option \<Rightarrow> string option" where
  "explicitTarget arg =
     (case arg of
        None \<Rightarrow> None
      | Some a \<Rightarrow> if fsPath (arg_rootUri a) \<noteq> [] then Some (fsPath (arg_rootUri a)) else None)"

text \<open>\<^verbatim>\<open>workspaceFolders?.find(f => f.uri.fsPath === repo.rootUri.fsPath)\<close>\<close>

definition findFolder :: "WorkspaceFolder list option \<Rightarrow> Repository \<Rightarrow> WorkspaceFolder option" where
  "findFolder workspaceFolders repo =
     (case workspaceFolders of
        None \<Rightarrow> None
      | Some fs \<Rightarrow> find (\<lambda>f. fsPath (folder_uri f) = fsPath (rootUri repo)) fs)"

text \<open>\<^verbatim>\<open>repo.state.HEAD?.name || repo.state.HEAD?.commit?.slice(0, 8) || ''\<close>\<close>

definition headText :: "Repository \<Rightarrow> string" where
  "headText repo =
     (case orElse (case HEAD (state repo) of None \<Rightarrow> None | Some h \<Rightarrow> branch_name h)
                  (orElse (case HEAD (state repo) of
                             None \<Rightarrow> None
                           | Some h \<Rightarrow> map_option (take 8) (branch_commit h))
                          (Some [])) of
        None \<Rightarrow> []
      | Some s \<Rightarrow> s)"

text \<open>
  The callback of \<^verbatim>\<open>git.repositories.map\<close>. \<^verbatim>\<open>path.basename\<close> belongs to the platform's
  library and is a parameter.
\<close>

definition repositoryItem ::
  "(string \<Rightarrow> string) \<Rightarrow> WorkspaceFolder list option \<Rightarrow> nat \<times> Repository \<Rightarrow> RepositoryItem" where
  "repositoryItem basename workspaceFolders ir =
     (case ir of (i, repo) \<Rightarrow>
        \<lparr> label =
            (case orElse (map_option folder_name (findFolder workspaceFolders repo))
                         (Some (basename (fsPath (rootUri repo)))) of
               None \<Rightarrow> []
             | Some s \<Rightarrow> s),
          description = Some (headText repo @ (if hasChanges repo then ''*'' else [])),
          detail = None,
          alwaysShow = None,
          index = i \<rparr>)"

text \<open>
  \<^verbatim>\<open>getRepository\<close>. \<^verbatim>\<open>createSimpleQuickPick\<close> is not among the sources: \<open>pick\<close> stands for
  it and for the user, giving the promise of the selected items for the items shown. The
  first component of the result lists the item lists that were handed to it, so that it
  is empty when no prompt was issued. A repository read at an index outside the array is
  \<^verbatim>\<open>undefined\<close>, here \<open>None\<close>.
\<close>

definition getRepository ::
  "(string \<Rightarrow> string) \<Rightarrow> (RepositoryItem list \<Rightarrow> RepositoryItem list promise) \<Rightarrow>
   API \<Rightarrow> Arg option \<Rightarrow> WorkspaceFolder list option \<Rightarrow>
   RepositoryItem list list \<times> Repository option promise" where
  "getRepository basename pick git arg workspaceFolders =
     (case explicitTarget arg of
        Some p \<Rightarrow>
          (case find (\<lambda>r. fsPath (rootUri r) = p) (repositories git) of
             Some repo \<Rightarrow> ([], Resolved (Some repo))
           | None \<Rightarrow> ([], Rejected (RepositoryNotFoundInPath p)))
      | None \<Rightarrow>
          if length (repositories git) = 0 then ([], Rejected RepositoriesEmpty)
          else if length (repositories git) = 1 then ([], Resolved (Some (repositories git ! 0)))
          else
            (let items = map (repositoryItem basename workspaceFolders)
                             (enumerate 0 (repositories git))
             in ([items],
                 (case pick items of
                    Pending \<Rightarrow> Pending
                  | Rejected e \<Rightarrow> Rejected e
                  | Resolved [] \<Rightarrow> Rejected TypeError
                  | Resolved (it # _) \<Rightarrow>
                      Resolved (if index it < length (repositories git)
                                then Some (repositories git ! index it) else None)))))"

section \<open>Localized strings (\<^verbatim>\<open>localize\<close>)\<close>

text \<open>
  The two tables that \<^verbatim>\<open>initialize\<close> loads are module state; they are passed explicitly.
  \<^verbatim>\<open>localeNLS[key] || defaultNLS[key]\<close>
\<close>

record NLS =
  localeNLS :: "string \<rightharpoonup> string"
  defaultNLS :: "string \<rightharpoonup> string"

definition localize :: "NLS \<Rightarrow> string \<Rightarrow> string option" where
  "localize nls key = orElse (localeNLS nls key) (defaultNLS nls key)"

section \<open>The persisted settings\<close>

text \<open>
  Modelled from the spec: the module \<^verbatim>\<open>configuration\<close> is not among the sources. The spec
  describes it as a user-settings store providing and accepting string-list values per
  named key: \<^verbatim>\<open>configuration.get(key)\<close> reads the list stored under the key and
  \<^verbatim>\<open>configuration.update(key, value)\<close> replaces it.
\<close>

type_synonym Configuration = "string \<Rightarrow> string list"

definition configuration_get :: "Configuration \<Rightarrow> string \<Rightarrow> string list" where
  "configuration_get cfg key = cfg key"

definition configuration_update :: "Configuration \<Rightarrow> string \<Rightarrow> string list \<Rightarrow> Configuration" where
  "configuration_update cfg key v = cfg(key := v)"

section \<open>The prompts (\<^verbatim>\<open>prompt-types.ts\<close>)\<close>

text \<open>
  \<^verbatim>\<open>await\<close> inside an \<^verbatim>\<open>async\<close> function, with the settings threaded through: the rest of
  the function runs only when the awaited promise resolves; a rejection becomes the
  function's own; a promise that stays pending leaves the function suspended.
\<close>

definition await ::
  "'a promise \<times> 's \<Rightarrow> ('a \<Rightarrow> 's \<Rightarrow> 'b promise \<times> 's) \<Rightarrow> 'b promise \<times> 's" where
  "await m k =
     (case m of
        (Pending, s) \<Rightarrow> (Pending, s)
      | (Rejected e, s) \<Rightarrow> (Rejected e, s)
      | (Resolved v, s) \<Rightarrow> k v s)"

text \<open>
  The options of the three prompts. A callback may throw, so it returns a sum; an absent
  \<^verbatim>\<open>format\<close> is the identity and an absent \<^verbatim>\<open>validate\<close> returns \<^verbatim>\<open>undefined\<close>. The
  placeholder of an input box is optional because \<^verbatim>\<open>newItem.placeholder!\<close> can pass
  \<^verbatim>\<open>undefined\<close>. \<^verbatim>\<open>createConfigurableQuickPick\<close> never reads the \<^verbatim>\<open>items\<close> of its
  options, which are left out.
\<close>

record QuickPickOptions =
  qp_placeholder :: string
  qp_items :: "Item list"
  qp_format :: "(string \<Rightarrow> error + string) option"
  qp_step :: nat
  qp_totalSteps :: nat
  qp_noneItem :: "Item option"

record InputBoxOptions =
  ib_placeholder :: "string option"
  ib_format :: "(string \<Rightarrow> error + string) option"
  ib_step :: nat
  ib_totalSteps :: nat
  ib_validate :: "(string \<Rightarrow> error + string option) option"

record ConfigurableQuickPickOptions =
  cq_placeholder :: string
  cq_format :: "(string \<Rightarrow> error + string) option"
  cq_step :: nat
  cq_totalSteps :: nat
  cq_configurationKey :: string
  cq_newItem :: Item
  cq_noneItem :: "Item option"
  cq_newItemWithoutSetting :: Item
  cq_addNoneOption :: bool
  cq_validate :: "(string \<Rightarrow> error + string option) option"

definition formatOr :: "(string \<Rightarrow> error + string) option \<Rightarrow> string \<Rightarrow> error + string" where
  "formatOr format = (case format of None \<Rightarrow> (\<lambda>i. Inr i) | Some f \<Rightarrow> f)"

definition validateOr ::
  "(string \<Rightarrow> error + string option) option \<Rightarrow> string \<Rightarrow> error + string option" where
  "validateOr validate = (case validate of None \<Rightarrow> (\<lambda>_. Inr None) | Some f \<Rightarrow> f)"

subsection \<open>\<^verbatim>\<open>createQuickPick\<close>\<close>

text \<open>
  \<open>pick\<close> stands for \<^verbatim>\<open>createSimpleQuickPick\<close> and the user, as in \<open>getRepository\<close>.
  \<^verbatim>\<open>pickerItems\<close> is the array \<^verbatim>\<open>items\<close> itself, so the \<^verbatim>\<open>unshift\<close> puts the none item in
  front of the items shown (that the caller's array keeps it afterwards is not tracked).
  \<^verbatim>\<open>selectedItems[0].label\<close> throws when nothing is selected.
\<close>

definition createQuickPick ::
  "(Item list \<Rightarrow> Item list promise) \<Rightarrow> QuickPickOptions \<Rightarrow> string promise" where
  "createQuickPick pick opts =
     (let items = (case qp_noneItem opts of
                     None \<Rightarrow> qp_items opts
                   | Some noneItem \<Rightarrow> noneItem # qp_items opts)
      in case pick items of
           Pending \<Rightarrow> Pending
         | Rejected e \<Rightarrow> Rejected e
         | Resolved [] \<Rightarrow> Rejected TypeError
         | Resolved (selected # _) \<Rightarrow>
             returned (formatOr (qp_format opts)
               (case qp_noneItem opts of
                  None \<Rightarrow> label selected
                | Some noneItem \<Rightarrow>
                    if label selected = label noneItem then [] else label selected)))"

subsection \<open>\<^verbatim>\<open>createInputBox\<close>\<close>

text \<open>
  The input box is driven by the host's events. \<open>ChangeValue v\<close>: the user edits the text
  to \<open>v\<close> and \<^verbatim>\<open>onDidChangeValue\<close> fires; \<open>Accept\<close>: the user submits and \<^verbatim>\<open>onDidAccept\<close>
  fires; \<open>Hide\<close>: the user dismisses the box, for which the code registers no handler.
  The host delivers events only while the box is on screen; \<^verbatim>\<open>input.dispose()\<close> and the
  dismissal both take it off. \<^verbatim>\<open>resolve\<close> and \<^verbatim>\<open>reject\<close> act on a pending promise only.
\<close>

datatype InputEvent = ChangeValue string | Accept | Hide

record InputBox =
  box_value :: string
  validationMessage :: "string option"
  shown :: bool
  settled :: "string promise"

definition settle :: "'a promise \<Rightarrow> 'a promise \<Rightarrow> 'a promise" where
  "settle p r = (case p of Pending \<Rightarrow> r | Resolved v \<Rightarrow> Resolved v | Rejected e \<Rightarrow> Rejected e)"

definition onDidChangeValue :: "InputBoxOptions \<Rightarrow> InputBox \<Rightarrow> InputBox" where
  "onDidChangeValue opts input =
     (case validateOr (ib_validate opts) (box_value input) of
        Inl e \<Rightarrow> input\<lparr>settled := settle (settled input) (Rejected e)\<rparr>
      | Inr m \<Rightarrow> input\<lparr>validationMessage := m\<rparr>)"

definition onDidAccept :: "InputBoxOptions \<Rightarrow> InputBox \<Rightarrow> InputBox" where
  "onDidAccept opts input =
     (case validateOr (ib_validate opts) (box_value input) of
        Inl e \<Rightarrow> input\<lparr>settled := settle (settled input) (Rejected e)\<rparr>
      | Inr m \<Rightarrow>
          if truthy m then input\<lparr>validationMessage := m\<rparr>
          else
            (case formatOr (ib_format opts) (box_value input) of
               Inl e \<Rightarrow> input\<lparr>validationMessage := m,
                              settled := settle (settled input) (Rejected e)\<rparr>
             | Inr result \<Rightarrow> input\<lparr>validationMessage := m, shown := False,
                                   settled := settle (settled input) (Resolved result)\<rparr>))"

definition deliver :: "InputBoxOptions \<Rightarrow> InputBox \<Rightarrow> InputEvent \<Rightarrow> InputBox" where
  "deliver opts input ev =
     (if \<not> shown input then input
      else case ev of
             ChangeValue v \<Rightarrow> onDidChangeValue opts (input\<lparr>box_value := v\<rparr>)
           | Accept \<Rightarrow> onDidAccept opts input
           | Hide \<Rightarrow> input\<lparr>shown := False\<rparr>)"

definition newInputBox :: InputBox where
  "newInputBox = \<lparr>box_value = [], validationMessage = None, shown = True, settled = Pending\<rparr>"

definition runInputBox :: "InputBoxOptions \<Rightarrow> InputEvent list \<Rightarrow> InputBox" where
  "runInputBox opts evs = foldl (deliver opts) newInputBox evs"

definition createInputBox :: "InputEvent list \<Rightarrow> InputBoxOptions \<Rightarrow> string promise" where
  "createInputBox evs opts = settled (runInputBox opts evs)"

subsection \<open>\<^verbatim>\<open>createConfigurableQuickPick\<close>\<close>

text \<open>
  \<open>evsNew\<close> and \<open>evsOnce\<close> are the events on the input boxes opened for
  \<^verbatim>\<open>newItem\<close> and for \<^verbatim>\<open>newItemWithoutSetting\<close>.
\<close>

definition configurableItems :: "NLS \<Rightarrow> ConfigurableQuickPickOptions \<Rightarrow> string list \<Rightarrow> Item list" where
  "configurableItems nls opts currentValus =
     map (\<lambda>v. \<lparr>label = v, description = Some [],
               detail = localize nls ''extension.sources.prompt.fromWorkspaceConfiguration'',
               alwaysShow = None, placeholder = None\<rparr>) currentValus
     @ [cq_newItem opts, cq_newItemWithoutSetting opts]"

definition nestedInputBox :: "ConfigurableQuickPickOptions \<Rightarrow> Item \<Rightarrow> InputBoxOptions" where
  "nestedInputBox opts item =
     \<lparr>ib_placeholder = placeholder item, ib_format = None, ib_step = cq_step opts,
      ib_totalSteps = cq_totalSteps opts, ib_validate = cq_validate opts\<rparr>"

definition createConfigurableQuickPick ::
  "NLS \<Rightarrow> (Item list \<Rightarrow> Item list promise) \<Rightarrow> InputEvent list \<Rightarrow> InputEvent list \<Rightarrow>
   ConfigurableQuickPickOptions \<Rightarrow> Configuration \<Rightarrow> string promise \<times> Configuration" where
  "createConfigurableQuickPick nls pick evsNew evsOnce opts cfg =
     (let currentValus = configuration_get cfg (cq_configurationKey opts);
          items = configurableItems nls opts currentValus
      in
      await (createQuickPick pick
               \<lparr>qp_placeholder = cq_placeholder opts, qp_items = items, qp_format = None,
                qp_step = cq_step opts, qp_totalSteps = cq_totalSteps opts,
                qp_noneItem = cq_noneItem opts\<rparr>, cfg)
        (\<lambda>selectedValue cfg.
      await (if selectedValue = label (cq_newItem opts)
             then await (createInputBox evsNew (nestedInputBox opts (cq_newItem opts)), cfg)
                    (\<lambda>selectedValue cfg.
                       (Resolved selectedValue,
                        if selectedValue \<noteq> []
                        then configuration_update cfg (cq_configurationKey opts)
                               (currentValus @ [selectedValue])
                        else cfg))
             else (Resolved selectedValue, cfg))
        (\<lambda>selectedValue cfg.
      await (if selectedValue = label (cq_newItemWithoutSetting opts)
             then (createInputBox evsOnce
                     (nestedInputBox opts (cq_newItemWithoutSetting opts)), cfg)
             else (Resolved selectedValue, cfg))
        (\<lambda>selectedValue cfg.
           (returned (formatOr (cq_format opts) selectedValue), cfg)))))"

text \<open>
  The items on screen in the quick pick of \<open>createConfigurableQuickPick\<close>: the none item
  when there is one, the persisted values, and the two synthetic items.
\<close>

definition shownItems :: "NLS \<Rightarrow> ConfigurableQuickPickOptions \<Rightarrow> Configuration \<Rightarrow> Item list" where
  "shownItems nls opts cfg =
     (case cq_noneItem opts of
        None \<Rightarrow> configurableItems nls opts (configuration_get cfg (cq_configurationKey opts))
      | Some noneItem \<Rightarrow>
          noneItem # configurableItems nls opts (configuration_get cfg (cq_configurationKey opts)))"

section \<open>The prompt sequence\<close>

text \<open>
  A prompt is tagged with its kind and carries its name and the options of its handler;
  \<open>promptTypes\<close> is the table exported by \<^verbatim>\<open>prompt-types.ts\<close>, from the kind to the
  handler. What the user does at one prompt is a \<open>User\<close>: the selection in the quick pick
  and the events on the input boxes.
\<close>

datatype Prompt =
    QUICK_PICK string QuickPickOptions
  | INPUT_BOX string InputBoxOptions
  | CONFIGURABLE_QUICK_PICK string ConfigurableQuickPickOptions

fun prompt_name :: "Prompt \<Rightarrow> string" where
  "prompt_name (QUICK_PICK n _) = n"
| "prompt_name (INPUT_BOX n _) = n"
| "prompt_name (CONFIGURABLE_QUICK_PICK n _) = n"

record User =
  picks :: "Item list \<Rightarrow> Item list promise"
  typed :: "InputEvent list"
  typedNew :: "InputEvent list"
  typedOnce :: "InputEvent list"

fun promptTypes :: "NLS \<Rightarrow> User \<Rightarrow> Prompt \<Rightarrow> Configuration \<Rightarrow> string promise \<times> Configuration" where
  "promptTypes nls u (QUICK_PICK _ opts) cfg = (createQuickPick (picks u) opts, cfg)"
| "promptTypes nls u (INPUT_BOX _ opts) cfg = (createInputBox (typed u) opts, cfg)"
| "promptTypes nls u (CONFIGURABLE_QUICK_PICK _ opts) cfg =
     createConfigurableQuickPick nls (picks u) (typedNew u) (typedOnce u) opts cfg"

text \<open>
  Modelled from the spec: the sequencer (\<^verbatim>\<open>./prompts\<close>) is not among the sources. The spec:
  it executes an ordered list of step descriptors, one at a time, waiting for the user's
  input at each before proceeding (no step begins before the previous one resolves), and
  accumulates the answers into the answer record, a mapping from field name to final
  formatted string, built one field at a time in descriptor order.
\<close>

fun runPrompts ::
  "NLS \<Rightarrow> (Prompt \<times> User) list \<Rightarrow> (string \<rightharpoonup> string) \<Rightarrow> Configuration \<Rightarrow>
   (string \<rightharpoonup> string) promise \<times> Configuration" where
  "runPrompts nls [] answers cfg = (Resolved answers, cfg)"
| "runPrompts nls (qu # rest) answers cfg =
     await (promptTypes nls (snd qu) (fst qu) cfg)
       (\<lambda>v cfg. runPrompts nls rest (answers(prompt_name (fst qu) \<mapsto> v)) cfg)"

text \<open>
  Steps 5 and 6 of \<^verbatim>\<open>conventionalCommits\<close>: the value of the repository's commit-message
  input box after \<^verbatim>\<open>const commitMessage = await prompts(...)\<close>,
  \<^verbatim>\<open>const message = serialize(commitMessage)\<close> and \<^verbatim>\<open>repository.inputBox.value = message\<close>
  (both branches of \<^verbatim>\<open>showEditor\<close> assign it). \<open>serializer\<close> stands for \<^verbatim>\<open>serialize\<close>. A
  rejection is caught and reported; a promise that stays pending never reaches the
  assignment.
\<close>

definition conventionalCommits_inputBox :: "('a \<Rightarrow> string) \<Rightarrow> 'a promise \<Rightarrow> string \<Rightarrow> string" where
  "conventionalCommits_inputBox serializer commitMessage inputBox_value =
     (case commitMessage of
        Resolved m \<Rightarrow> serializer m
      | Pending \<Rightarrow> inputBox_value
      | Rejected e \<Rightarrow> inputBox_value)"

section \<open>The message serializer\<close>

text \<open>
  Modelled from the spec: \<^verbatim>\<open>serialize\<close> (\<^verbatim>\<open>./commit-message\<close>) is not among the sources.
  The spec gives the shape
  \<^verbatim>\<open><type>(<scope>): <subject>\<close>, blank line, \<^verbatim>\<open><body>\<close>, blank line, \<^verbatim>\<open><footer>\<close>
  and the rules: the scope segment and its parentheses are omitted entirely when scope is
  empty; the body and footer blocks (and their separating blank lines) are omitted when
  empty; leading and trailing whitespace is trimmed from the final result. Line breaks
  within body and footer are those the upstream answer formatter has already inserted for
  the line-break marker, so body and footer are taken as they are. The spec does not say
  which characters are whitespace: the predicate \<open>ws\<close> is a parameter, so that what is
  proved holds for whatever the platform's trim removes, and also for a serializer that
  trims nothing.
\<close>

record CommitMessage =
  type :: string
  scope :: string
  subject :: string
  body :: string
  footer :: string





section \<open>Example inputs\<close>

text \<open>A basename for paths separated by a slash, and a quick pick that is never answered.\<close>

definition lastSegment :: "string \<Rightarrow> string" where
  "lastSegment p = rev (takeWhile (\<lambda>c. c \<noteq> CHR ''/'') (rev p))"

definition unanswered :: "'a list \<Rightarrow> 'a list promise" where
  "unanswered items = Pending"

definition repoApp :: Repository where
  "repoApp =
     \<lparr>rootUri = \<lparr>fsPath = ''/work/app''\<rparr>,
      state = \<lparr>HEAD = Some \<lparr>branch_name = Some ''main'',
                             branch_commit = Some ''0123456789abcdef''\<rparr>,
               workingTreeChanges = [\<lparr>change_uri = \<lparr>fsPath = ''/work/app/a.ts''\<rparr>\<rparr>],
               mergeChanges = [], indexChanges = []\<rparr>\<rparr>"

definition repoLib :: Repository where
  "repoLib =
     \<lparr>rootUri = \<lparr>fsPath = ''/work/lib''\<rparr>,
      state = \<lparr>HEAD = Some \<lparr>branch_name = None,
                             branch_commit = Some ''89abcdef01234567''\<rparr>,
               workingTreeChanges = [], mergeChanges = [], indexChanges = []\<rparr>\<rparr>"

definition targetApp :: Arg where
  "targetApp = \<lparr>arg_rootUri = \<lparr>fsPath = ''/work/app''\<rparr>\<rparr>"


text \<open>A user who selects the item at a given position of the quick pick.\<close>

definition picksAt :: "nat \<Rightarrow> 'a list \<Rightarrow> 'a list promise" where
  "picksAt n items = Resolved (take 1 (drop n items))"

definition noNLS :: NLS where
  "noNLS = \<lparr>localeNLS = Map.empty, defaultNLS = Map.empty\<rparr>"

definition noneScope :: Item where
  "noneScope = \<lparr>label = ''None'', description = None, detail = None, alwaysShow = None,
                placeholder = None\<rparr>"

definition newScope :: Item where
  "newScope = \<lparr>label = ''New scope'', description = None, detail = None, alwaysShow = None,
               placeholder = Some ''Create a new scope''\<rparr>"

definition onceScope :: Item where
  "onceScope = \<lparr>label = ''New scope (only use once)'', description = None, detail = None,
                alwaysShow = None, placeholder = Some ''Create a new scope''\<rparr>"

definition featType :: Item where
  "featType = \<lparr>label = ''feat'', description = None, detail = None, alwaysShow = None,
               placeholder = None\<rparr>"

definition bracket :: "string \<Rightarrow> error + string" where
  "bracket s = Inr (''['' @ s @ '']'')"

definition required :: "string \<Rightarrow> error + string option" where
  "required v = (if v = [] then Inr (Some ''required'') else Inr None)"

definition typeOptions :: QuickPickOptions where
  "typeOptions =
     \<lparr>qp_placeholder = ''type'', qp_items = [featType], qp_format = Some bracket,
      qp_step = 1, qp_totalSteps = 3, qp_noneItem = Some noneScope\<rparr>"

definition scopeOptions :: ConfigurableQuickPickOptions where
  "scopeOptions =
     \<lparr>cq_placeholder = ''scope'', cq_format = None, cq_step = 2, cq_totalSteps = 3,
      cq_configurationKey = ''scopes'', cq_newItem = newScope, cq_noneItem = Some noneScope,
      cq_newItemWithoutSetting = onceScope, cq_addNoneOption = True, cq_validate = None\<rparr>"

definition subjectOptions :: InputBoxOptions where
  "subjectOptions =
     \<lparr>ib_placeholder = Some ''subject'', ib_format = Some bracket, ib_step = 3,
      ib_totalSteps = 3, ib_validate = Some required\<rparr>"

definition scopesCore :: Configuration where
  "scopesCore key = (if key = ''scopes'' then [''core''] else [])"

definition scopesNew :: Configuration where
  "scopesNew key = (if key = ''scopes'' then [''New scope''] else [])"

definition remembersApi :: User where
  "remembersApi =
     \<lparr>picks = picksAt 2, typed = [], typedNew = [ChangeValue ''api'', Accept], typedOnce = []\<rparr>"

definition dismisses :: User where
  "dismisses =
     \<lparr>picks = unanswered, typed = [ChangeValue ''add au'', Hide], typedNew = [], typedOnce = []\<rparr>"

text \<open>A serializer of the answer record, for the examples.\<close>

definition subjectOnly :: "(string \<rightharpoonup> string) \<Rightarrow> string" where
  "subjectOnly answers = (case answers ''subject'' of None \<Rightarrow> [] | Some s \<Rightarrow> s)"





section \<open>Repository resolution: properties\<close>

lemma getRepository_explicit:
  "explicitTarget arg = Some p \<Longrightarrow>
   getRepository basename pick git arg workspaceFolders =
     (case find (\<lambda>r. fsPath (rootUri r) = p) (repositories git) of
        Some repo \<Rightarrow> ([], Resolved (Some repo))
      | None \<Rightarrow> ([], Rejected (RepositoryNotFoundInPath p)))"
  by (simp add: getRepository_def)

lemma explicitTarget_Some:
  "explicitTarget arg = Some p \<longleftrightarrow> (\<exists>a. arg = Some a \<and> fsPath (arg_rootUri a) = p \<and> p \<noteq> [])"
  by (auto simp: explicitTarget_def split: option.splits)

lemma getRepository_empty:
  "explicitTarget arg = None \<Longrightarrow> repositories git = [] \<Longrightarrow>
   getRepository basename pick git arg workspaceFolders = ([], Rejected RepositoriesEmpty)"
  by (simp add: getRepository_def)

lemma getRepository_single:
  "explicitTarget arg = None \<Longrightarrow> repositories git = [r] \<Longrightarrow>
   getRepository basename pick git arg workspaceFolders = ([], Resolved (Some r))"
  by (simp add: getRepository_def)

text \<open>
  Claim C9. The explicit-target check comes before the checks on the number of
  candidates: when the argument carries a non-empty path that no candidate has,
  \<open>getRepository\<close> rejects with the error of \<^verbatim>\<open>repositoryNotFoundInPath\<close> for that
  path, without prompting, also when there is no candidate at all; and whenever it
  rejects with the error of \<^verbatim>\<open>repositoriesEmpty\<close>, no explicit target was supplied.
\<close>

theorem explicit_target_precedence:
  "(arg = Some a \<and> fsPath (arg_rootUri a) \<noteq> [] \<and>
    find (\<lambda>r. fsPath (rootUri r) = fsPath (arg_rootUri a)) (repositories git) = None \<longrightarrow>
      getRepository basename pick git arg workspaceFolders =
        ([], Rejected (RepositoryNotFoundInPath (fsPath (arg_rootUri a))))) \<and>
   (arg = Some a \<and> fsPath (arg_rootUri a) \<noteq> [] \<and> repositories git = [] \<longrightarrow>
      getRepository basename pick git arg workspaceFolders =
        ([], Rejected (RepositoryNotFoundInPath (fsPath (arg_rootUri a))))) \<and>
   (snd (getRepository basename pick git arg workspaceFolders) = Rejected RepositoriesEmpty \<longrightarrow>
      explicitTarget arg = None)"
proof (intro conjI impI)
  assume h: "arg = Some a \<and> fsPath (arg_rootUri a) \<noteq> [] \<and>
    find (\<lambda>r. fsPath (rootUri r) = fsPath (arg_rootUri a)) (repositories git) = None"
  then have "explicitTarget arg = Some (fsPath (arg_rootUri a))"
    by (simp add: explicitTarget_Some)
  with h show "getRepository basename pick git arg workspaceFolders =
        ([], Rejected (RepositoryNotFoundInPath (fsPath (arg_rootUri a))))"
    by (simp add: getRepository_explicit)
next
  assume h: "arg = Some a \<and> fsPath (arg_rootUri a) \<noteq> [] \<and> repositories git = []"
  then have "explicitTarget arg = Some (fsPath (arg_rootUri a))"
    by (simp add: explicitTarget_Some)
  with h show "getRepository basename pick git arg workspaceFolders =
        ([], Rejected (RepositoryNotFoundInPath (fsPath (arg_rootUri a))))"
    by (simp add: getRepository_explicit)
next
  assume h: "snd (getRepository basename pick git arg workspaceFolders) = Rejected RepositoriesEmpty"
  show "explicitTarget arg = None"
  proof (cases "explicitTarget arg")
    case None
    then show ?thesis .
  next
    case (Some p)
    with h show ?thesis
      by (simp add: getRepository_explicit split: option.splits)
  qed
qed

theorem explicit_target_precedence_witness:
  "getRepository lastSegment unanswered \<lparr>repositories = []\<rparr> (Some targetApp) None =
     ([], Rejected (RepositoryNotFoundInPath ''/work/app'')) \<and>
   snd (getRepository lastSegment unanswered \<lparr>repositories = []\<rparr> None None) =
     Rejected RepositoriesEmpty \<and>
   explicitTarget None = None"
  using explicit_target_precedence [of "Some targetApp" targetApp "\<lparr>repositories = []\<rparr>"
          lastSegment unanswered None]
        explicit_target_precedence [of None targetApp "\<lparr>repositories = []\<rparr>"
          lastSegment unanswered None]
  by (simp add: targetApp_def getRepository_empty explicitTarget_def)

lemma getRepository_match:
  "arg = Some a \<Longrightarrow> fsPath (arg_rootUri a) \<noteq> [] \<Longrightarrow>
   find (\<lambda>r. fsPath (rootUri r) = fsPath (arg_rootUri a)) (repositories git) = Some repo \<Longrightarrow>
   getRepository basename pick git arg workspaceFolders = ([], Resolved (Some repo))"
  by (simp add: getRepository_def explicitTarget_def)

lemma getRepository_nomatch:
  "arg = Some a \<Longrightarrow> fsPath (arg_rootUri a) \<noteq> [] \<Longrightarrow>
   find (\<lambda>r. fsPath (rootUri r) = fsPath (arg_rootUri a)) (repositories git) = None \<Longrightarrow>
   getRepository basename pick git arg workspaceFolders =
     ([], Rejected (RepositoryNotFoundInPath (fsPath (arg_rootUri a))))"
  by (simp add: getRepository_def explicitTarget_def)

text \<open>
  Claim C1 as stated fails: with no candidate and an explicit target, the call rejects
  with the error of \<^verbatim>\<open>repositoryNotFoundInPath\<close>, not with that of \<^verbatim>\<open>repositoriesEmpty\<close>.
\<close>

theorem zero_candidates_counterexample:
  "repositories \<lparr>repositories = []\<rparr> = [] \<and>
   getRepository lastSegment unanswered \<lparr>repositories = []\<rparr> (Some targetApp) None =
     ([], Rejected (RepositoryNotFoundInPath ''/work/app'')) \<and>
   snd (getRepository lastSegment unanswered \<lparr>repositories = []\<rparr> (Some targetApp) None) \<noteq>
     Rejected RepositoriesEmpty"
  by (simp add: getRepository_def explicitTarget_def targetApp_def)

text \<open>
  Claim C1, amended. Without an explicit target and with no candidate, \<open>getRepository\<close>
  rejects with the error of \<^verbatim>\<open>repositoriesEmpty\<close>; with an explicit target that a
  candidate has, it returns the first such candidate; with an explicit target that no
  candidate has, it rejects with the error of \<^verbatim>\<open>repositoryNotFoundInPath\<close> (whatever the
  number of candidates); without an explicit target and with exactly one candidate, it
  returns that candidate. None of the four cases issues a prompt.
\<close>

theorem getRepository_policy:
  "(explicitTarget arg = None \<and> repositories git = [] \<longrightarrow>
      getRepository basename pick git arg workspaceFolders = ([], Rejected RepositoriesEmpty)) \<and>
   (arg = Some a \<and> fsPath (arg_rootUri a) \<noteq> [] \<and>
    find (\<lambda>r. fsPath (rootUri r) = fsPath (arg_rootUri a)) (repositories git) = Some repo \<longrightarrow>
      getRepository basename pick git arg workspaceFolders = ([], Resolved (Some repo)) \<and>
      repo \<in> set (repositories git) \<and> fsPath (rootUri repo) = fsPath (arg_rootUri a)) \<and>
   (arg = Some a \<and> fsPath (arg_rootUri a) \<noteq> [] \<and>
    (\<forall>r \<in> set (repositories git). fsPath (rootUri r) \<noteq> fsPath (arg_rootUri a)) \<longrightarrow>
      getRepository basename pick git arg workspaceFolders =
        ([], Rejected (RepositoryNotFoundInPath (fsPath (arg_rootUri a))))) \<and>
   (explicitTarget arg = None \<and> repositories git = [r] \<longrightarrow>
      getRepository basename pick git arg workspaceFolders = ([], Resolved (Some r)))"
proof -
  have c1: "explicitTarget arg = None \<and> repositories git = [] \<longrightarrow>
      getRepository basename pick git arg workspaceFolders = ([], Rejected RepositoriesEmpty)"
    by (simp add: getRepository_empty)
  have c2: "arg = Some a \<and> fsPath (arg_rootUri a) \<noteq> [] \<and>
    find (\<lambda>r. fsPath (rootUri r) = fsPath (arg_rootUri a)) (repositories git) = Some repo \<longrightarrow>
      getRepository basename pick git arg workspaceFolders = ([], Resolved (Some repo)) \<and>
      repo \<in> set (repositories git) \<and> fsPath (rootUri repo) = fsPath (arg_rootUri a)"
  proof
    assume h: "arg = Some a \<and> fsPath (arg_rootUri a) \<noteq> [] \<and>
      find (\<lambda>r. fsPath (rootUri r) = fsPath (arg_rootUri a)) (repositories git) = Some repo"
    then have "getRepository basename pick git arg workspaceFolders = ([], Resolved (Some repo))"
      by (simp add: getRepository_match)
    moreover from h have "repo \<in> set (repositories git) \<and>
        fsPath (rootUri repo) = fsPath (arg_rootUri a)"
      by (auto simp: find_Some_iff)
    ultimately show "getRepository basename pick git arg workspaceFolders = ([], Resolved (Some repo)) \<and>
      repo \<in> set (repositories git) \<and> fsPath (rootUri repo) = fsPath (arg_rootUri a)"
      by simp
  qed
  have c3: "arg = Some a \<and> fsPath (arg_rootUri a) \<noteq> [] \<and>
    (\<forall>r \<in> set (repositories git). fsPath (rootUri r) \<noteq> fsPath (arg_rootUri a)) \<longrightarrow>
      getRepository basename pick git arg workspaceFolders =
        ([], Rejected (RepositoryNotFoundInPath (fsPath (arg_rootUri a))))"
    by (simp add: getRepository_nomatch find_None_iff)
  have c4: "explicitTarget arg = None \<and> repositories git = [r] \<longrightarrow>
      getRepository basename pick git arg workspaceFolders = ([], Resolved (Some r))"
    by (simp add: getRepository_single)
  from c1 c2 c3 c4 show ?thesis by (intro conjI)
qed

theorem getRepository_policy_witness:
  "getRepository lastSegment unanswered \<lparr>repositories = []\<rparr> None None =
     ([], Rejected RepositoriesEmpty) \<and>
   getRepository lastSegment unanswered \<lparr>repositories = [repoLib, repoApp]\<rparr> (Some targetApp) None =
     ([], Resolved (Some repoApp)) \<and>
   getRepository lastSegment unanswered \<lparr>repositories = [repoLib]\<rparr> (Some targetApp) None =
     ([], Rejected (RepositoryNotFoundInPath ''/work/app'')) \<and>
   getRepository lastSegment unanswered \<lparr>repositories = [repoLib]\<rparr> None None =
     ([], Resolved (Some repoLib))"
  using getRepository_policy [of None "\<lparr>repositories = []\<rparr>" lastSegment unanswered None
          targetApp repoApp repoLib]
        getRepository_policy [of "Some targetApp" "\<lparr>repositories = [repoLib, repoApp]\<rparr>"
          lastSegment unanswered None targetApp repoApp repoLib]
        getRepository_policy [of "Some targetApp" "\<lparr>repositories = [repoLib]\<rparr>"
          lastSegment unanswered None targetApp repoApp repoLib]
        getRepository_policy [of None "\<lparr>repositories = [repoLib]\<rparr>"
          lastSegment unanswered None targetApp repoApp repoLib]
  by (simp add: explicitTarget_def targetApp_def repoApp_def repoLib_def)








section \<open>The prompts: properties\<close>

lemma createQuickPick_selected:
  "pick (case qp_noneItem opts of None \<Rightarrow> qp_items opts | Some n \<Rightarrow> n # qp_items opts) =
     Resolved (selected # others) \<Longrightarrow>
   createQuickPick pick opts =
     returned (formatOr (qp_format opts)
       (case qp_noneItem opts of
          None \<Rightarrow> label selected
        | Some n \<Rightarrow> if label selected = label n then [] else label selected))"
  by (simp add: createQuickPick_def Let_def)

lemma createQuickPick_unsettled:
  "pick (case qp_noneItem opts of None \<Rightarrow> qp_items opts | Some n \<Rightarrow> n # qp_items opts) = Pending \<Longrightarrow>
   createQuickPick pick opts = Pending"
  by (simp add: createQuickPick_def Let_def)

text \<open>
  Claim C5. In a quick pick with a none item, when the label of the selected item equals
  the label of the none item, the step resolves with the formatter applied to the empty
  string; for any other selected label it resolves with the formatter applied to that
  label. (When the formatter throws, the step rejects with what it threw.)
\<close>

theorem quickPick_none_coercion:
  assumes "qp_noneItem opts = Some noneItem"
    and "pick (noneItem # qp_items opts) = Resolved (selected # others)"
  shows "(label selected = label noneItem \<longrightarrow>
            createQuickPick pick opts =
              (case formatOr (qp_format opts) [] of
                 Inl e \<Rightarrow> Rejected e | Inr v \<Rightarrow> Resolved v)) \<and>
         (label selected \<noteq> label noneItem \<longrightarrow>
            createQuickPick pick opts =
              (case formatOr (qp_format opts) (label selected) of
                 Inl e \<Rightarrow> Rejected e | Inr v \<Rightarrow> Resolved v))"
  using assms by (simp add: createQuickPick_selected returned_def)

theorem quickPick_none_coercion_witness:
  "qp_noneItem typeOptions = Some noneScope \<and>
   picksAt 0 (noneScope # qp_items typeOptions) = Resolved [noneScope] \<and>
   picksAt 1 (noneScope # qp_items typeOptions) = Resolved [featType] \<and>
   createQuickPick (picksAt 0) typeOptions = Resolved ''[]'' \<and>
   createQuickPick (picksAt 1) typeOptions = Resolved ''[feat]''"
proof -
  have n: "qp_noneItem typeOptions = Some noneScope"
    by (simp add: typeOptions_def)
  have p0: "picksAt 0 (noneScope # qp_items typeOptions) = Resolved [noneScope]"
    by (simp add: picksAt_def)
  have p1: "picksAt 1 (noneScope # qp_items typeOptions) = Resolved [featType]"
    by (simp add: picksAt_def typeOptions_def)
  from quickPick_none_coercion [where pick = "picksAt 0" and selected = noneScope, OF n p0]
       quickPick_none_coercion [where pick = "picksAt 1" and selected = featType, OF n p1]
  have "createQuickPick (picksAt 0) typeOptions = Resolved ''[]'' \<and>
        createQuickPick (picksAt 1) typeOptions = Resolved ''[feat]''"
    by (simp add: typeOptions_def formatOr_def bracket_def noneScope_def featType_def)
  with n p0 p1 show ?thesis
    by (intro conjI) simp_all
qed

subsection \<open>The input box\<close>

lemma runInputBox_snoc:
  "runInputBox opts (evs @ [ev]) = deliver opts (runInputBox opts evs) ev"
  by (simp add: runInputBox_def)

lemma deliver_off_screen: "\<not> shown input \<Longrightarrow> deliver opts input ev = input"
  by (simp add: deliver_def)

lemma foldl_deliver_off_screen: "\<not> shown input \<Longrightarrow> foldl (deliver opts) input evs = input"
  by (induction evs) (simp_all add: deliver_off_screen)

lemma deliver_Resolved:
  assumes "settled (deliver opts input ev) = Resolved r"
  shows "settled input = Resolved r \<or>
         (\<exists>m. validateOr (ib_validate opts) (box_value input) = Inr m \<and> \<not> truthy m \<and>
              formatOr (ib_format opts) (box_value input) = Inr r)"
proof (cases "shown input")
  case False
  with assms show ?thesis
    by (simp add: deliver_off_screen)
next
  case True
  show ?thesis
  proof (cases ev)
    case (ChangeValue v)
    with True assms show ?thesis
      by (auto simp: deliver_def onDidChangeValue_def settle_def split: sum.splits promise.splits)
  next
    case Accept
    with True assms show ?thesis
      by (auto simp: deliver_def onDidAccept_def settle_def split: sum.splits promise.splits if_splits)
  next
    case Hide
    with True assms show ?thesis
      by (simp add: deliver_def)
  qed
qed

lemma runInputBox_Resolved:
  "settled (runInputBox opts evs) = Resolved r \<Longrightarrow>
   \<exists>v m. validateOr (ib_validate opts) v = Inr m \<and> \<not> truthy m \<and>
         formatOr (ib_format opts) v = Inr r"
proof (induction evs arbitrary: r rule: rev_induct)
  case Nil
  then show ?case
    by (simp add: runInputBox_def newInputBox_def)
next
  case (snoc ev evs)
  from snoc.prems have "settled (deliver opts (runInputBox opts evs) ev) = Resolved r"
    by (simp add: runInputBox_snoc)
  then show ?case
    using snoc.IH deliver_Resolved by blast
qed

lemma accept_blocked:
  "shown input \<Longrightarrow> validateOr (ib_validate opts) (box_value input) = Inr m \<Longrightarrow> truthy m \<Longrightarrow>
   deliver opts input Accept = input\<lparr>validationMessage := m\<rparr>"
  by (simp add: deliver_def onDidAccept_def)

lemma accept_passes:
  "shown input \<Longrightarrow> settled input = Pending \<Longrightarrow>
   validateOr (ib_validate opts) (box_value input) = Inr m \<Longrightarrow> \<not> truthy m \<Longrightarrow>
   formatOr (ib_format opts) (box_value input) = Inr r \<Longrightarrow>
   deliver opts input Accept =
     input\<lparr>validationMessage := m, shown := False, settled := Resolved r\<rparr>"
  by (simp add: deliver_def onDidAccept_def settle_def)

lemma keystroke_validates:
  "shown input \<Longrightarrow> validateOr (ib_validate opts) v = Inr m \<Longrightarrow>
   deliver opts input (ChangeValue v) = input\<lparr>box_value := v, validationMessage := m\<rparr>"
  by (simp add: deliver_def onDidChangeValue_def)

lemma dismissed_stays_pending:
  assumes "settled (runInputBox opts evs) = Pending"
  shows "createInputBox (evs @ Hide # evs') opts = Pending"
proof -
  let ?input = "deliver opts (runInputBox opts evs) Hide"
  have off: "\<not> shown ?input"
    by (simp add: deliver_def)
  have same: "settled ?input = settled (runInputBox opts evs)"
    by (simp add: deliver_def)
  have "runInputBox opts (evs @ Hide # evs') = foldl (deliver opts) ?input evs'"
    by (simp add: runInputBox_def)
  also have "\<dots> = ?input"
    using off by (rule foldl_deliver_off_screen)
  finally show ?thesis
    using same assms by (simp add: createInputBox_def)
qed

text \<open>
  Claim C6. An input box resolves only with the formatter applied to a value for which
  the validation returned no message (\<^verbatim>\<open>undefined\<close> or the empty string, which the code
  and the host treat alike). On submit, when the validation returns a message, the box
  stays open, shows the message and its promise is left as it was; when the validation
  passes, the pending promise resolves with the formatter applied to the entered value
  and the box is disposed. On every change of the text the validation is run on the new
  text and its result becomes the message shown.
\<close>

theorem inputBox_validation:
  "(createInputBox evs opts = Resolved r \<longrightarrow>
      (\<exists>v m. validateOr (ib_validate opts) v = Inr m \<and> \<not> truthy m \<and>
             formatOr (ib_format opts) v = Inr r)) \<and>
   (shown (runInputBox opts evs) \<and>
    validateOr (ib_validate opts) (box_value (runInputBox opts evs)) = Inr m \<and> truthy m \<longrightarrow>
      shown (runInputBox opts (evs @ [Accept])) \<and>
      validationMessage (runInputBox opts (evs @ [Accept])) = m \<and>
      createInputBox (evs @ [Accept]) opts = createInputBox evs opts) \<and>
   (shown (runInputBox opts evs) \<and> createInputBox evs opts = Pending \<and>
    validateOr (ib_validate opts) (box_value (runInputBox opts evs)) = Inr m \<and> \<not> truthy m \<and>
    formatOr (ib_format opts) (box_value (runInputBox opts evs)) = Inr r' \<longrightarrow>
      createInputBox (evs @ [Accept]) opts = Resolved r' \<and>
      \<not> shown (runInputBox opts (evs @ [Accept]))) \<and>
   (shown (runInputBox opts evs) \<and> validateOr (ib_validate opts) v = Inr m \<longrightarrow>
      box_value (runInputBox opts (evs @ [ChangeValue v])) = v \<and>
      validationMessage (runInputBox opts (evs @ [ChangeValue v])) = m \<and>
      shown (runInputBox opts (evs @ [ChangeValue v])) \<and>
      createInputBox (evs @ [ChangeValue v]) opts = createInputBox evs opts)"
proof -
  have never: "createInputBox evs opts = Resolved r \<longrightarrow>
      (\<exists>v m. validateOr (ib_validate opts) v = Inr m \<and> \<not> truthy m \<and>
             formatOr (ib_format opts) v = Inr r)"
    by (simp add: createInputBox_def runInputBox_Resolved)
  have blocked: "shown (runInputBox opts evs) \<and>
    validateOr (ib_validate opts) (box_value (runInputBox opts evs)) = Inr m \<and> truthy m \<longrightarrow>
      shown (runInputBox opts (evs @ [Accept])) \<and>
      validationMessage (runInputBox opts (evs @ [Accept])) = m \<and>
      createInputBox (evs @ [Accept]) opts = createInputBox evs opts"
    by (simp add: createInputBox_def runInputBox_snoc accept_blocked)
  have passes: "shown (runInputBox opts evs) \<and> createInputBox evs opts = Pending \<and>
    validateOr (ib_validate opts) (box_value (runInputBox opts evs)) = Inr m \<and> \<not> truthy m \<and>
    formatOr (ib_format opts) (box_value (runInputBox opts evs)) = Inr r' \<longrightarrow>
      createInputBox (evs @ [Accept]) opts = Resolved r' \<and>
      \<not> shown (runInputBox opts (evs @ [Accept]))"
    by (simp add: createInputBox_def runInputBox_snoc accept_passes)
  have live: "shown (runInputBox opts evs) \<and> validateOr (ib_validate opts) v = Inr m \<longrightarrow>
      box_value (runInputBox opts (evs @ [ChangeValue v])) = v \<and>
      validationMessage (runInputBox opts (evs @ [ChangeValue v])) = m \<and>
      shown (runInputBox opts (evs @ [ChangeValue v])) \<and>
      createInputBox (evs @ [ChangeValue v]) opts = createInputBox evs opts"
    by (simp add: createInputBox_def runInputBox_snoc keystroke_validates)
  from never blocked passes live show ?thesis
    by (intro conjI)
qed

lemmas inputBox_eval =
  createInputBox_def runInputBox_def newInputBox_def deliver_def onDidAccept_def
  onDidChangeValue_def settle_def validateOr_def formatOr_def truthy_def

theorem inputBox_validation_witness:
  "createInputBox [ChangeValue ''fix typo'', Accept] subjectOptions = Resolved ''[fix typo]'' \<and>
   (\<exists>v m. validateOr (ib_validate subjectOptions) v = Inr m \<and> \<not> truthy m \<and>
          formatOr (ib_format subjectOptions) v = Inr ''[fix typo]'') \<and>
   shown (runInputBox subjectOptions [Accept]) \<and>
   validationMessage (runInputBox subjectOptions [Accept]) = Some ''required'' \<and>
   createInputBox [Accept] subjectOptions = Pending \<and>
   validationMessage (runInputBox subjectOptions [ChangeValue ''f'']) = None"
proof -
  have s0: "shown (runInputBox subjectOptions [])"
    by (simp add: inputBox_eval)
  have v0: "validateOr (ib_validate subjectOptions) (box_value (runInputBox subjectOptions [])) =
              Inr (Some ''required'')"
    by (simp add: inputBox_eval subjectOptions_def required_def)
  have p0: "createInputBox [] subjectOptions = Pending"
    by (simp add: inputBox_eval)
  have t: "truthy (Some ''required'')" and f: "\<not> truthy None"
    by (simp_all add: truthy_def)
  have vf: "validateOr (ib_validate subjectOptions) ''f'' = Inr None"
    by (simp add: inputBox_eval subjectOptions_def required_def)
  have s1: "shown (runInputBox subjectOptions [ChangeValue ''fix typo''])"
    and p1: "createInputBox [ChangeValue ''fix typo''] subjectOptions = Pending"
    and v1: "validateOr (ib_validate subjectOptions)
               (box_value (runInputBox subjectOptions [ChangeValue ''fix typo''])) = Inr None"
    and f1: "formatOr (ib_format subjectOptions)
               (box_value (runInputBox subjectOptions [ChangeValue ''fix typo''])) =
             Inr ''[fix typo]''"
    by (simp_all add: inputBox_eval subjectOptions_def required_def bracket_def)
  from inputBox_validation [of "[ChangeValue ''fix typo'']" subjectOptions _ None "''[fix typo]''"]
    s1 p1 v1 f1 f
  have r: "createInputBox [ChangeValue ''fix typo'', Accept] subjectOptions = Resolved ''[fix typo]''"
    by simp
  from inputBox_validation [of "[ChangeValue ''fix typo'', Accept]" subjectOptions "''[fix typo]''"] r
  have a: "\<exists>v m. validateOr (ib_validate subjectOptions) v = Inr m \<and> \<not> truthy m \<and>
          formatOr (ib_format subjectOptions) v = Inr ''[fix typo]''"
    by blast
  from inputBox_validation [of "[]" subjectOptions _ "Some ''required''"] s0 v0 t p0
  have b: "shown (runInputBox subjectOptions [Accept]) \<and>
           validationMessage (runInputBox subjectOptions [Accept]) = Some ''required'' \<and>
           createInputBox [Accept] subjectOptions = Pending"
    by simp
  from inputBox_validation [of "[]" subjectOptions _ None _ "''f''"] s0 vf
  have d: "validationMessage (runInputBox subjectOptions [ChangeValue ''f'']) = None"
    by simp
  from r a b d show ?thesis
    by (intro conjI) simp_all
qed

lemma configurable_pick:
  assumes "pick (shownItems nls opts cfg) = Resolved (selected # others)"
    and "\<forall>n. cq_noneItem opts = Some n \<longrightarrow> label n \<noteq> label selected"
  shows "createQuickPick pick
           \<lparr>qp_placeholder = cq_placeholder opts,
            qp_items = configurableItems nls opts (configuration_get cfg (cq_configurationKey opts)),
            qp_format = None, qp_step = cq_step opts, qp_totalSteps = cq_totalSteps opts,
            qp_noneItem = cq_noneItem opts\<rparr> = Resolved (label selected)"
  using assms
  by (auto simp: createQuickPick_def shownItems_def formatOr_def returned_def Let_def
           split: option.splits)

lemma configurable_after_pick:
  assumes "pick (shownItems nls opts cfg) = Resolved (selected # others)"
    and "\<forall>n. cq_noneItem opts = Some n \<longrightarrow> label n \<noteq> label selected"
  shows "createConfigurableQuickPick nls pick evsNew evsOnce opts cfg =
     await (if label selected = label (cq_newItem opts)
            then await (createInputBox evsNew (nestedInputBox opts (cq_newItem opts)), cfg)
                   (\<lambda>v c. (Resolved v,
                      if v \<noteq> []
                      then configuration_update c (cq_configurationKey opts)
                             (configuration_get cfg (cq_configurationKey opts) @ [v])
                      else c))
            else (Resolved (label selected), cfg))
       (\<lambda>v c. await (if v = label (cq_newItemWithoutSetting opts)
                      then (createInputBox evsOnce
                              (nestedInputBox opts (cq_newItemWithoutSetting opts)), c)
                      else (Resolved v, c))
                (\<lambda>w c. (returned (formatOr (cq_format opts) w), c)))"
  unfolding createConfigurableQuickPick_def Let_def configurable_pick [where pick = pick and nls = nls and opts = opts and cfg = cfg, OF assms]
  by (simp add: await_def)

lemma configurable_unsettled:
  assumes "pick (shownItems nls opts cfg) = Pending"
  shows "createConfigurableQuickPick nls pick evsNew evsOnce opts cfg = (Pending, cfg)"
proof -
  have "createQuickPick pick
           \<lparr>qp_placeholder = cq_placeholder opts,
            qp_items = configurableItems nls opts (configuration_get cfg (cq_configurationKey opts)),
            qp_format = None, qp_step = cq_step opts, qp_totalSteps = cq_totalSteps opts,
            qp_noneItem = cq_noneItem opts\<rparr> = Pending"
    using assms
    by (auto simp: createQuickPick_def shownItems_def Let_def split: option.splits)
  then show ?thesis
    unfolding createConfigurableQuickPick_def Let_def by (simp add: await_def)
qed

text \<open>The settings change only through the input box of \<open>newItem\<close>.\<close>

lemma configurable_settings:
  "snd (createConfigurableQuickPick nls pick evsNew evsOnce opts cfg) = cfg \<or>
   (\<exists>v. createInputBox evsNew (nestedInputBox opts (cq_newItem opts)) = Resolved v \<and> v \<noteq> [] \<and>
        snd (createConfigurableQuickPick nls pick evsNew evsOnce opts cfg) =
          configuration_update cfg (cq_configurationKey opts)
            (configuration_get cfg (cq_configurationKey opts) @ [v]))"
  unfolding createConfigurableQuickPick_def Let_def await_def
  by (auto split: promise.splits prod.splits if_splits)

lemma configurable_remember:
  assumes "pick (shownItems nls opts cfg) = Resolved (selected # others)"
    and "\<forall>n. cq_noneItem opts = Some n \<longrightarrow> label n \<noteq> label selected"
    and "label selected = label (cq_newItem opts)"
    and "createInputBox evsNew (nestedInputBox opts (cq_newItem opts)) = Resolved v"
  shows "snd (createConfigurableQuickPick nls pick evsNew evsOnce opts cfg) =
           (if v \<noteq> []
            then configuration_update cfg (cq_configurationKey opts)
                   (configuration_get cfg (cq_configurationKey opts) @ [v])
            else cfg)"
  unfolding configurable_after_pick [where pick = pick and nls = nls and opts = opts and cfg = cfg, OF assms(1,2)] using assms(3,4)
  by (auto simp: await_def split: promise.splits)

lemma configurable_once:
  assumes "pick (shownItems nls opts cfg) = Resolved (selected # others)"
    and "\<forall>n. cq_noneItem opts = Some n \<longrightarrow> label n \<noteq> label selected"
    and "label selected \<noteq> label (cq_newItem opts)"
  shows "snd (createConfigurableQuickPick nls pick evsNew evsOnce opts cfg) = cfg"
  unfolding configurable_after_pick [where pick = pick and nls = nls and opts = opts and cfg = cfg, OF assms(1,2)] using assms(3)
  by (auto simp: await_def split: promise.splits)

lemma shownItems_persisted:
  "v \<in> set (configuration_get cfg (cq_configurationKey opts)) \<Longrightarrow>
   v \<in> label ` set (shownItems nls opts cfg)"
  by (auto simp: shownItems_def configurableItems_def image_iff split: option.splits)

text \<open>
  Claim C4. The two synthetic items and the none item carry different labels. When the
  user selects \<^verbatim>\<open>newItem\<close> and its input box resolves with a non-empty value, the value is
  appended to the list stored under the configuration key, so that the next run reads
  it and shows it; when the input box resolves with the empty string, the settings are
  unchanged; when the user selects \<^verbatim>\<open>newItemWithoutSetting\<close>, the settings are unchanged
  whatever is entered.
\<close>

theorem growable_choice_persistence:
  assumes "label (cq_newItem opts) \<noteq> label (cq_newItemWithoutSetting opts)"
    and "\<forall>n. cq_noneItem opts = Some n \<longrightarrow>
           label n \<noteq> label (cq_newItem opts) \<and> label n \<noteq> label (cq_newItemWithoutSetting opts)"
  shows
    "(pick (shownItems nls opts cfg) = Resolved (cq_newItem opts # others) \<and>
      createInputBox evsNew (nestedInputBox opts (cq_newItem opts)) = Resolved v \<and> v \<noteq> [] \<longrightarrow>
        snd (createConfigurableQuickPick nls pick evsNew evsOnce opts cfg) =
          configuration_update cfg (cq_configurationKey opts)
            (configuration_get cfg (cq_configurationKey opts) @ [v]) \<and>
        configuration_get (snd (createConfigurableQuickPick nls pick evsNew evsOnce opts cfg))
            (cq_configurationKey opts) =
          configuration_get cfg (cq_configurationKey opts) @ [v] \<and>
        v \<in> label ` set (shownItems nls opts
                           (snd (createConfigurableQuickPick nls pick evsNew evsOnce opts cfg)))) \<and>
     (pick (shownItems nls opts cfg) = Resolved (cq_newItem opts # others) \<and>
      createInputBox evsNew (nestedInputBox opts (cq_newItem opts)) = Resolved [] \<longrightarrow>
        snd (createConfigurableQuickPick nls pick evsNew evsOnce opts cfg) = cfg) \<and>
     (pick (shownItems nls opts cfg) = Resolved (cq_newItemWithoutSetting opts # others) \<longrightarrow>
        snd (createConfigurableQuickPick nls pick evsNew evsOnce opts cfg) = cfg)"
proof -
  from assms(2) have none_new: "\<forall>n. cq_noneItem opts = Some n \<longrightarrow> label n \<noteq> label (cq_newItem opts)"
    and none_once: "\<forall>n. cq_noneItem opts = Some n \<longrightarrow> label n \<noteq> label (cq_newItemWithoutSetting opts)"
    by simp_all
  have remember: "snd (createConfigurableQuickPick nls pick evsNew evsOnce opts cfg) =
          configuration_update cfg (cq_configurationKey opts)
            (configuration_get cfg (cq_configurationKey opts) @ [v]) \<and>
        configuration_get (snd (createConfigurableQuickPick nls pick evsNew evsOnce opts cfg))
            (cq_configurationKey opts) =
          configuration_get cfg (cq_configurationKey opts) @ [v] \<and>
        v \<in> label ` set (shownItems nls opts
                           (snd (createConfigurableQuickPick nls pick evsNew evsOnce opts cfg)))"
    if p: "pick (shownItems nls opts cfg) = Resolved (cq_newItem opts # others)"
      and i: "createInputBox evsNew (nestedInputBox opts (cq_newItem opts)) = Resolved v"
      and v: "v \<noteq> []"
  proof -
    have s: "snd (createConfigurableQuickPick nls pick evsNew evsOnce opts cfg) =
          configuration_update cfg (cq_configurationKey opts)
            (configuration_get cfg (cq_configurationKey opts) @ [v])"
      using configurable_remember [where pick = pick and selected = "cq_newItem opts",
              OF p none_new refl i] v by simp
    then have g: "configuration_get (snd (createConfigurableQuickPick nls pick evsNew evsOnce opts cfg))
            (cq_configurationKey opts) =
          configuration_get cfg (cq_configurationKey opts) @ [v]"
      by (simp add: configuration_get_def configuration_update_def)
    then have "v \<in> set (configuration_get
                 (snd (createConfigurableQuickPick nls pick evsNew evsOnce opts cfg))
                 (cq_configurationKey opts))"
      by simp
    then have "v \<in> label ` set (shownItems nls opts
                           (snd (createConfigurableQuickPick nls pick evsNew evsOnce opts cfg)))"
      by (rule shownItems_persisted)
    with s g show ?thesis
      by simp
  qed
  have empty: "snd (createConfigurableQuickPick nls pick evsNew evsOnce opts cfg) = cfg"
    if p: "pick (shownItems nls opts cfg) = Resolved (cq_newItem opts # others)"
      and i: "createInputBox evsNew (nestedInputBox opts (cq_newItem opts)) = Resolved []"
    using configurable_remember [where pick = pick and selected = "cq_newItem opts",
            OF p none_new refl i] by simp
  have once: "snd (createConfigurableQuickPick nls pick evsNew evsOnce opts cfg) = cfg"
    if p: "pick (shownItems nls opts cfg) = Resolved (cq_newItemWithoutSetting opts # others)"
    using configurable_once [where pick = pick and selected = "cq_newItemWithoutSetting opts",
            OF p none_once] assms(1) by simp
  from remember empty once show ?thesis
    by blast
qed

lemmas configurable_eval =
  shownItems_def configurableItems_def configuration_get_def picksAt_def nestedInputBox_def

theorem growable_choice_persistence_witness:
  "label (cq_newItem scopeOptions) \<noteq> label (cq_newItemWithoutSetting scopeOptions) \<and>
   picksAt 2 (shownItems noNLS scopeOptions scopesCore) = Resolved [newScope] \<and>
   picksAt 3 (shownItems noNLS scopeOptions scopesCore) = Resolved [onceScope] \<and>
   createInputBox [ChangeValue ''api'', Accept] (nestedInputBox scopeOptions newScope) =
     Resolved ''api'' \<and>
   configuration_get
     (snd (createConfigurableQuickPick noNLS (picksAt 2) [ChangeValue ''api'', Accept] []
             scopeOptions scopesCore)) ''scopes'' = [''core'', ''api''] \<and>
   snd (createConfigurableQuickPick noNLS (picksAt 2) [Accept] [] scopeOptions scopesCore) =
     scopesCore \<and>
   snd (createConfigurableQuickPick noNLS (picksAt 3) [] [ChangeValue ''tmp'', Accept]
          scopeOptions scopesCore) = scopesCore"
proof -
  have d: "label (cq_newItem scopeOptions) \<noteq> label (cq_newItemWithoutSetting scopeOptions)"
    by (simp add: scopeOptions_def newScope_def onceScope_def)
  have n: "\<forall>n. cq_noneItem scopeOptions = Some n \<longrightarrow>
             label n \<noteq> label (cq_newItem scopeOptions) \<and>
             label n \<noteq> label (cq_newItemWithoutSetting scopeOptions)"
    by (simp add: scopeOptions_def newScope_def onceScope_def noneScope_def)
  have p2: "picksAt 2 (shownItems noNLS scopeOptions scopesCore) = Resolved (cq_newItem scopeOptions # [])"
    and p3: "picksAt 3 (shownItems noNLS scopeOptions scopesCore) =
               Resolved (cq_newItemWithoutSetting scopeOptions # [])"
    by (simp_all add: configurable_eval scopeOptions_def scopesCore_def)
  have new: "cq_newItem scopeOptions = newScope" and once: "cq_newItemWithoutSetting scopeOptions = onceScope"
    and key: "cq_configurationKey scopeOptions = ''scopes''"
    by (simp_all add: scopeOptions_def)
  have api: "createInputBox [ChangeValue ''api'', Accept]
               (nestedInputBox scopeOptions (cq_newItem scopeOptions)) = Resolved ''api''"
    and blank: "createInputBox [Accept]
               (nestedInputBox scopeOptions (cq_newItem scopeOptions)) = Resolved []"
    by (simp_all add: inputBox_eval nestedInputBox_def scopeOptions_def)
  note inst = growable_choice_persistence [OF d n, where nls = noNLS and cfg = scopesCore]
  from inst [where pick = "picksAt 2" and evsNew = "[ChangeValue ''api'', Accept]"
              and evsOnce = "[]" and v = "''api''" and others = "[]"] p2 api
  have a: "configuration_get
     (snd (createConfigurableQuickPick noNLS (picksAt 2) [ChangeValue ''api'', Accept] []
             scopeOptions scopesCore)) ''scopes'' = [''core'', ''api'']"
    by (simp add: key scopesCore_def configuration_get_def configuration_update_def)
  from inst [where pick = "picksAt 2" and evsNew = "[Accept]" and evsOnce = "[]" and others = "[]"
               and v = "[]"]
    p2 blank
  have b: "snd (createConfigurableQuickPick noNLS (picksAt 2) [Accept] [] scopeOptions scopesCore) =
     scopesCore"
    by simp
  from inst [where pick = "picksAt 3" and evsNew = "[]"
              and evsOnce = "[ChangeValue ''tmp'', Accept]" and others = "[]" and v = "[]"] p3
  have c: "snd (createConfigurableQuickPick noNLS (picksAt 3) [] [ChangeValue ''tmp'', Accept]
          scopeOptions scopesCore) = scopesCore"
    by simp
  from d p2 p3 api a b c show ?thesis
    by (simp add: new once)
qed

text \<open>
  Claim C10. The step dispatches on the label of the selected item alone, and again on
  the value the first input box returns. When the selected label is that of \<^verbatim>\<open>newItem\<close>
  (whether the item is \<^verbatim>\<open>newItem\<close> or a persisted value with the same text), the input box
  of \<^verbatim>\<open>newItem\<close> is opened; when the value it returns, already persisted if non-empty,
  equals the label of \<^verbatim>\<open>newItemWithoutSetting\<close>, the second input box is opened and the step
  returns what that one returns. When the selected label is that of
  \<^verbatim>\<open>newItemWithoutSetting\<close>, the second input box is opened. Only a label different from
  both is returned directly.
\<close>

theorem label_dispatch:
  assumes "pick (shownItems nls opts cfg) = Resolved (selected # others)"
    and "\<forall>n. cq_noneItem opts = Some n \<longrightarrow> label n \<noteq> label selected"
  shows
    "(label selected = label (cq_newItem opts) \<and>
      createInputBox evsNew (nestedInputBox opts (cq_newItem opts)) = Resolved v \<and>
      v = label (cq_newItemWithoutSetting opts) \<longrightarrow>
        createConfigurableQuickPick nls pick evsNew evsOnce opts cfg =
          ((case createInputBox evsOnce (nestedInputBox opts (cq_newItemWithoutSetting opts)) of
              Pending \<Rightarrow> Pending
            | Rejected e \<Rightarrow> Rejected e
            | Resolved w \<Rightarrow> returned (formatOr (cq_format opts) w)),
           (if v \<noteq> []
            then configuration_update cfg (cq_configurationKey opts)
                   (configuration_get cfg (cq_configurationKey opts) @ [v])
            else cfg))) \<and>
     (label selected = label (cq_newItem opts) \<and>
      createInputBox evsNew (nestedInputBox opts (cq_newItem opts)) = Resolved v \<and>
      v \<noteq> label (cq_newItemWithoutSetting opts) \<longrightarrow>
        createConfigurableQuickPick nls pick evsNew evsOnce opts cfg =
          (returned (formatOr (cq_format opts) v),
           (if v \<noteq> []
            then configuration_update cfg (cq_configurationKey opts)
                   (configuration_get cfg (cq_configurationKey opts) @ [v])
            else cfg))) \<and>
     (label selected = label (cq_newItem opts) \<and>
      createInputBox evsNew (nestedInputBox opts (cq_newItem opts)) = Pending \<longrightarrow>
        createConfigurableQuickPick nls pick evsNew evsOnce opts cfg = (Pending, cfg)) \<and>
     (label selected \<noteq> label (cq_newItem opts) \<and>
      label selected = label (cq_newItemWithoutSetting opts) \<longrightarrow>
        createConfigurableQuickPick nls pick evsNew evsOnce opts cfg =
          ((case createInputBox evsOnce (nestedInputBox opts (cq_newItemWithoutSetting opts)) of
              Pending \<Rightarrow> Pending
            | Rejected e \<Rightarrow> Rejected e
            | Resolved w \<Rightarrow> returned (formatOr (cq_format opts) w)),
           cfg)) \<and>
     (label selected \<noteq> label (cq_newItem opts) \<and>
      label selected \<noteq> label (cq_newItemWithoutSetting opts) \<longrightarrow>
        createConfigurableQuickPick nls pick evsNew evsOnce opts cfg =
          (returned (formatOr (cq_format opts) (label selected)), cfg))"
proof -
  note after = configurable_after_pick [where pick = pick and nls = nls and opts = opts
      and cfg = cfg and evsNew = evsNew and evsOnce = evsOnce, OF assms]
  have twice: "createConfigurableQuickPick nls pick evsNew evsOnce opts cfg =
          ((case createInputBox evsOnce (nestedInputBox opts (cq_newItemWithoutSetting opts)) of
              Pending \<Rightarrow> Pending
            | Rejected e \<Rightarrow> Rejected e
            | Resolved w \<Rightarrow> returned (formatOr (cq_format opts) w)),
           (if v \<noteq> []
            then configuration_update cfg (cq_configurationKey opts)
                   (configuration_get cfg (cq_configurationKey opts) @ [v])
            else cfg))"
    if "label selected = label (cq_newItem opts)"
      and "createInputBox evsNew (nestedInputBox opts (cq_newItem opts)) = Resolved v"
      and "v = label (cq_newItemWithoutSetting opts)"
    unfolding after using that by (simp add: await_def split: promise.splits)
  have remembered: "createConfigurableQuickPick nls pick evsNew evsOnce opts cfg =
          (returned (formatOr (cq_format opts) v),
           (if v \<noteq> []
            then configuration_update cfg (cq_configurationKey opts)
                   (configuration_get cfg (cq_configurationKey opts) @ [v])
            else cfg))"
    if "label selected = label (cq_newItem opts)"
      and "createInputBox evsNew (nestedInputBox opts (cq_newItem opts)) = Resolved v"
      and "v \<noteq> label (cq_newItemWithoutSetting opts)"
    unfolding after using that by (simp add: await_def)
  have waiting: "createConfigurableQuickPick nls pick evsNew evsOnce opts cfg = (Pending, cfg)"
    if "label selected = label (cq_newItem opts)"
      and "createInputBox evsNew (nestedInputBox opts (cq_newItem opts)) = Pending"
    unfolding after using that by (simp add: await_def)
  have once: "createConfigurableQuickPick nls pick evsNew evsOnce opts cfg =
          ((case createInputBox evsOnce (nestedInputBox opts (cq_newItemWithoutSetting opts)) of
              Pending \<Rightarrow> Pending
            | Rejected e \<Rightarrow> Rejected e
            | Resolved w \<Rightarrow> returned (formatOr (cq_format opts) w)),
           cfg)"
    if "label selected \<noteq> label (cq_newItem opts)"
      and "label selected = label (cq_newItemWithoutSetting opts)"
    unfolding after using that by (simp add: await_def split: promise.splits)
  have direct: "createConfigurableQuickPick nls pick evsNew evsOnce opts cfg =
          (returned (formatOr (cq_format opts) (label selected)), cfg)"
    if "label selected \<noteq> label (cq_newItem opts)"
      and "label selected \<noteq> label (cq_newItemWithoutSetting opts)"
    unfolding after using that by (simp add: await_def)
  from twice remembered waiting once direct show ?thesis
    by blast
qed

theorem label_dispatch_witness:
  "picksAt 2 (shownItems noNLS scopeOptions scopesCore) = Resolved [newScope] \<and>
   createConfigurableQuickPick noNLS (picksAt 2)
     [ChangeValue ''New scope (only use once)'', Accept] [ChangeValue ''real'', Accept]
     scopeOptions scopesCore =
     (Resolved ''real'',
      configuration_update scopesCore ''scopes'' [''core'', ''New scope (only use once)'']) \<and>
   picksAt 1 (shownItems noNLS scopeOptions scopesNew) =
     Resolved [\<lparr>label = ''New scope'', description = Some [], detail = None,
                alwaysShow = None, placeholder = None\<rparr>] \<and>
   createConfigurableQuickPick noNLS (picksAt 1) [] [] scopeOptions scopesNew =
     (Pending, scopesNew) \<and>
   createConfigurableQuickPick noNLS (picksAt 1) [ChangeValue ''x'', Accept] []
     scopeOptions scopesNew =
     (Resolved ''x'', configuration_update scopesNew ''scopes'' [''New scope'', ''x'']) \<and>
   createConfigurableQuickPick noNLS (picksAt 3) [] [ChangeValue ''tmp'', Accept]
     scopeOptions scopesCore = (Resolved ''tmp'', scopesCore) \<and>
   createConfigurableQuickPick noNLS (picksAt 1) [] [] scopeOptions scopesCore =
     (Resolved ''core'', scopesCore)"
proof -
  let ?persisted = "\<lambda>v. \<lparr>label = v, description = Some [], detail = None,
                          alwaysShow = None, placeholder = None\<rparr>"
  have new: "cq_newItem scopeOptions = newScope"
    and once: "cq_newItemWithoutSetting scopeOptions = onceScope"
    and key: "cq_configurationKey scopeOptions = ''scopes''"
    and fmt: "cq_format scopeOptions = None"
    and none: "cq_noneItem scopeOptions = Some noneScope"
    by (simp_all add: scopeOptions_def)
  have labels: "label newScope = ''New scope''" "label onceScope = ''New scope (only use once)''"
    "label noneScope = ''None''"
    by (simp_all add: newScope_def onceScope_def noneScope_def)
  have core2: "picksAt 2 (shownItems noNLS scopeOptions scopesCore) = Resolved (newScope # [])"
    and core3: "picksAt 3 (shownItems noNLS scopeOptions scopesCore) = Resolved (onceScope # [])"
    and core1: "picksAt 1 (shownItems noNLS scopeOptions scopesCore) =
                  Resolved (?persisted ''core'' # [])"
    and new1: "picksAt 1 (shownItems noNLS scopeOptions scopesNew) =
                  Resolved (?persisted ''New scope'' # [])"
    by (simp_all add: configurable_eval scopeOptions_def scopesCore_def scopesNew_def
          localize_def noNLS_def orElse_def truthy_def)
  have boxes:
    "createInputBox [ChangeValue ''New scope (only use once)'', Accept]
       (nestedInputBox scopeOptions newScope) = Resolved ''New scope (only use once)''"
    "createInputBox [ChangeValue ''real'', Accept]
       (nestedInputBox scopeOptions onceScope) = Resolved ''real''"
    "createInputBox [] (nestedInputBox scopeOptions newScope) = Pending"
    "createInputBox [ChangeValue ''x'', Accept] (nestedInputBox scopeOptions newScope) =
       Resolved ''x''"
    "createInputBox [ChangeValue ''tmp'', Accept] (nestedInputBox scopeOptions onceScope) =
       Resolved ''tmp''"
    by (simp_all add: inputBox_eval nestedInputBox_def scopeOptions_def)
  have get: "configuration_get scopesCore ''scopes'' = [''core'']"
    "configuration_get scopesNew ''scopes'' = [''New scope'']"
    by (simp_all add: configuration_get_def scopesCore_def scopesNew_def)
  have a: "createConfigurableQuickPick noNLS (picksAt 2)
     [ChangeValue ''New scope (only use once)'', Accept] [ChangeValue ''real'', Accept]
     scopeOptions scopesCore =
     (Resolved ''real'',
      configuration_update scopesCore ''scopes'' [''core'', ''New scope (only use once)''])"
    using label_dispatch [where pick = "picksAt 2" and nls = noNLS and opts = scopeOptions
        and cfg = scopesCore and selected = newScope and others = "[]"
        and evsNew = "[ChangeValue ''New scope (only use once)'', Accept]"
        and evsOnce = "[ChangeValue ''real'', Accept]"
        and v = "''New scope (only use once)''", OF core2]
    by (simp add: new once key fmt none labels boxes get formatOr_def returned_def)
  have b: "createConfigurableQuickPick noNLS (picksAt 1) [] [] scopeOptions scopesNew =
     (Pending, scopesNew)"
    using label_dispatch [where pick = "picksAt 1" and nls = noNLS and opts = scopeOptions
        and cfg = scopesNew and selected = "?persisted ''New scope''" and others = "[]"
        and evsNew = "[]" and evsOnce = "[]" and v = "[]", OF new1]
    by (simp add: new once key fmt none labels boxes get formatOr_def returned_def)
  have c: "createConfigurableQuickPick noNLS (picksAt 1) [ChangeValue ''x'', Accept] []
     scopeOptions scopesNew =
     (Resolved ''x'', configuration_update scopesNew ''scopes'' [''New scope'', ''x''])"
    using label_dispatch [where pick = "picksAt 1" and nls = noNLS and opts = scopeOptions
        and cfg = scopesNew and selected = "?persisted ''New scope''" and others = "[]"
        and evsNew = "[ChangeValue ''x'', Accept]" and evsOnce = "[]" and v = "''x''", OF new1]
    by (simp add: new once key fmt none labels boxes get formatOr_def returned_def)
  have d: "createConfigurableQuickPick noNLS (picksAt 3) [] [ChangeValue ''tmp'', Accept]
     scopeOptions scopesCore = (Resolved ''tmp'', scopesCore)"
    using label_dispatch [where pick = "picksAt 3" and nls = noNLS and opts = scopeOptions
        and cfg = scopesCore and selected = onceScope and others = "[]"
        and evsNew = "[]" and evsOnce = "[ChangeValue ''tmp'', Accept]" and v = "[]", OF core3]
    by (simp add: new once key fmt none labels boxes get formatOr_def returned_def)
  have e: "createConfigurableQuickPick noNLS (picksAt 1) [] [] scopeOptions scopesCore =
     (Resolved ''core'', scopesCore)"
    using label_dispatch [where pick = "picksAt 1" and nls = noNLS and opts = scopeOptions
        and cfg = scopesCore and selected = "?persisted ''core''" and others = "[]"
        and evsNew = "[]" and evsOnce = "[]" and v = "[]", OF core1]
    by (simp add: new once key fmt none labels boxes get formatOr_def returned_def)
  from core2 new1 a b c d e show ?thesis
    by simp
qed

section \<open>The prompt sequence: properties\<close>

lemma runPrompts_append:
  "runPrompts nls (before @ rest) answers cfg =
     await (runPrompts nls before answers cfg) (\<lambda>answers' cfg'. runPrompts nls rest answers' cfg')"
proof (induction before arbitrary: answers cfg)
  case Nil
  then show ?case
    by (simp add: await_def)
next
  case (Cons qu before)
  obtain p s where step: "promptTypes nls (snd qu) (fst qu) cfg = (p, s)"
    by (cases "promptTypes nls (snd qu) (fst qu) cfg")
  show ?case
  proof (cases p)
    case Pending
    with step show ?thesis
      by (simp add: await_def)
  next
    case (Resolved v)
    with step have "runPrompts nls ((qu # before) @ rest) answers cfg =
        runPrompts nls (before @ rest) (answers(prompt_name (fst qu) \<mapsto> v)) s"
      by (simp add: await_def)
    also have "\<dots> = await (runPrompts nls before (answers(prompt_name (fst qu) \<mapsto> v)) s)
                       (\<lambda>answers' cfg'. runPrompts nls rest answers' cfg')"
      by (rule Cons.IH)
    also from step Resolved have "\<dots> = await (runPrompts nls (qu # before) answers cfg)
                       (\<lambda>answers' cfg'. runPrompts nls rest answers' cfg')"
      by (simp add: await_def)
    finally show ?thesis .
  next
    case (Rejected e)
    with step show ?thesis
      by (simp add: await_def)
  qed
qed

lemma runPrompts_suspended:
  assumes "runPrompts nls before answers cfg = (Resolved given, stored)"
    and "fst (promptTypes nls u q stored) = Pending"
  shows "runPrompts nls (before @ (q, u) # rest) answers cfg =
           (Pending, snd (promptTypes nls u q stored))"
proof -
  from assms(2) obtain s where step: "promptTypes nls u q stored = (Pending, s)"
    by (cases "promptTypes nls u q stored") simp
  then have "runPrompts nls ((q, u) # rest) given stored = (Pending, s)"
    by (simp add: await_def)
  with assms(1) step show ?thesis
    by (simp add: runPrompts_append await_def)
qed

text \<open>
  Claim C3, amended. A dismissal settles nothing. An input box that is dismissed while
  its promise is pending stays pending whatever happens afterwards, and a quick pick
  whose promise stays pending leaves its step pending, the settings untouched. A
  sequence whose earlier steps have resolved and whose next step stays pending is itself
  pending: no later step runs, no answer record is returned, and the commit-message
  input box keeps its value. The persisted lists are what the steps before the dismissal
  left: a quick pick and an input box never change them, and a configurable quick pick
  changes them only by appending the non-empty value with which the input box of
  \<^verbatim>\<open>newItem\<close> resolved. Nothing is rolled back.
\<close>

theorem dismissal_suspends_sequence:
  "(createInputBox evs opts = Pending \<longrightarrow> createInputBox (evs @ Hide # evs') opts = Pending) \<and>
   (picks u (case qp_noneItem qopts of None \<Rightarrow> qp_items qopts | Some n \<Rightarrow> n # qp_items qopts) =
      Pending \<longrightarrow> createQuickPick (picks u) qopts = Pending) \<and>
   (runPrompts nls before answers cfg = (Resolved given, stored) \<and>
    createInputBox evs opts = Pending \<and> typed u = evs @ Hide # evs' \<longrightarrow>
      runPrompts nls (before @ (INPUT_BOX name opts, u) # rest) answers cfg = (Pending, stored)) \<and>
   (runPrompts nls before answers cfg = (Resolved given, stored) \<and>
    fst (promptTypes nls u q stored) = Pending \<longrightarrow>
      runPrompts nls (before @ (q, u) # rest) answers cfg =
        (Pending, snd (promptTypes nls u q stored)) \<and>
      conventionalCommits_inputBox serializer
        (fst (runPrompts nls (before @ (q, u) # rest) answers cfg)) inputBox_value =
        inputBox_value) \<and>
   (picks u (shownItems nls copts cfg) = Pending \<longrightarrow>
      promptTypes nls u (CONFIGURABLE_QUICK_PICK name copts) cfg = (Pending, cfg)) \<and>
   snd (promptTypes nls u (QUICK_PICK name qopts) cfg) = cfg \<and>
   snd (promptTypes nls u (INPUT_BOX name opts) cfg) = cfg \<and>
   (snd (promptTypes nls u (CONFIGURABLE_QUICK_PICK name copts) cfg) = cfg \<or>
    (\<exists>v. createInputBox (typedNew u) (nestedInputBox copts (cq_newItem copts)) = Resolved v \<and>
         v \<noteq> [] \<and>
         snd (promptTypes nls u (CONFIGURABLE_QUICK_PICK name copts) cfg) =
           configuration_update cfg (cq_configurationKey copts)
             (configuration_get cfg (cq_configurationKey copts) @ [v])))"
proof -
  have box: "createInputBox evs opts = Pending \<longrightarrow>
      createInputBox (evs @ Hide # evs') opts = Pending"
    by (simp add: createInputBox_def dismissed_stays_pending [unfolded createInputBox_def])
  have quick: "picks u (case qp_noneItem qopts of None \<Rightarrow> qp_items qopts
                        | Some n \<Rightarrow> n # qp_items qopts) = Pending \<longrightarrow>
      createQuickPick (picks u) qopts = Pending"
    by (simp add: createQuickPick_unsettled)
  have step: "runPrompts nls before answers cfg = (Resolved given, stored) \<and>
    createInputBox evs opts = Pending \<and> typed u = evs @ Hide # evs' \<longrightarrow>
      runPrompts nls (before @ (INPUT_BOX name opts, u) # rest) answers cfg = (Pending, stored)"
  proof
    assume h: "runPrompts nls before answers cfg = (Resolved given, stored) \<and>
      createInputBox evs opts = Pending \<and> typed u = evs @ Hide # evs'"
    with box have "fst (promptTypes nls u (INPUT_BOX name opts) stored) = Pending"
      by simp
    with h have "runPrompts nls (before @ (INPUT_BOX name opts, u) # rest) answers cfg =
        (Pending, snd (promptTypes nls u (INPUT_BOX name opts) stored))"
      by (simp add: runPrompts_suspended)
    then show "runPrompts nls (before @ (INPUT_BOX name opts, u) # rest) answers cfg = (Pending, stored)"
      by simp
  qed
  have seq: "runPrompts nls before answers cfg = (Resolved given, stored) \<and>
    fst (promptTypes nls u q stored) = Pending \<longrightarrow>
      runPrompts nls (before @ (q, u) # rest) answers cfg =
        (Pending, snd (promptTypes nls u q stored)) \<and>
      conventionalCommits_inputBox serializer
        (fst (runPrompts nls (before @ (q, u) # rest) answers cfg)) inputBox_value =
        inputBox_value"
    by (simp add: runPrompts_suspended conventionalCommits_inputBox_def)
  have settings: "snd (promptTypes nls u (CONFIGURABLE_QUICK_PICK name copts) cfg) = cfg \<or>
    (\<exists>v. createInputBox (typedNew u) (nestedInputBox copts (cq_newItem copts)) = Resolved v \<and>
         v \<noteq> [] \<and>
         snd (promptTypes nls u (CONFIGURABLE_QUICK_PICK name copts) cfg) =
           configuration_update cfg (cq_configurationKey copts)
             (configuration_get cfg (cq_configurationKey copts) @ [v]))"
    using configurable_settings [of nls "picks u" "typedNew u" "typedOnce u" copts cfg]
    by simp
  have growable: "picks u (shownItems nls copts cfg) = Pending \<longrightarrow>
      promptTypes nls u (CONFIGURABLE_QUICK_PICK name copts) cfg = (Pending, cfg)"
    by (simp add: configurable_unsettled)
  have quickStep: "snd (promptTypes nls u (QUICK_PICK name qopts) cfg) = cfg"
    and inputStep: "snd (promptTypes nls u (INPUT_BOX name opts) cfg) = cfg"
    by simp_all
  from box quick step seq growable quickStep inputStep settings show ?thesis
    by (intro conjI)
qed

lemma scope_step_remembers:
  "createConfigurableQuickPick noNLS (picks remembersApi) (typedNew remembersApi)
     (typedOnce remembersApi) scopeOptions scopesCore =
     (Resolved ''api'', configuration_update scopesCore ''scopes'' [''core'', ''api''])"
proof -
  have pick: "picksAt 2 (shownItems noNLS scopeOptions scopesCore) = Resolved (newScope # [])"
    by (simp add: configurable_eval scopeOptions_def scopesCore_def)
  have none: "\<forall>n. cq_noneItem scopeOptions = Some n \<longrightarrow> label n \<noteq> label newScope"
    by (simp add: scopeOptions_def noneScope_def newScope_def)
  have box: "createInputBox [ChangeValue ''api'', Accept]
               (nestedInputBox scopeOptions (cq_newItem scopeOptions)) = Resolved ''api''"
    by (simp add: inputBox_eval nestedInputBox_def scopeOptions_def)
  have "createConfigurableQuickPick noNLS (picksAt 2) [ChangeValue ''api'', Accept] []
          scopeOptions scopesCore =
        (Resolved ''api'', configuration_update scopesCore ''scopes'' [''core'', ''api''])"
    unfolding configurable_after_pick [where pick = "picksAt 2" and nls = noNLS
        and opts = scopeOptions and cfg = scopesCore, OF pick none]
    using box
    by (simp add: await_def scopeOptions_def newScope_def onceScope_def formatOr_def returned_def
          configuration_get_def scopesCore_def)
  then show ?thesis
    by (simp add: remembersApi_def)
qed

lemma subject_step_dismissed:
  "createInputBox [ChangeValue ''add au'', Hide] subjectOptions = Pending"
  by (simp add: inputBox_eval subjectOptions_def required_def)

text \<open>
  Claim C3 as stated fails. The user creates and remembers the scope \<^verbatim>\<open>api\<close> and then
  dismisses the subject prompt: the promise of the sequence is never settled, so no
  cancellation outcome reaches the caller, and the persisted list of scopes has changed.
\<close>

theorem dismissal_counterexample:
  "createInputBox [ChangeValue ''add au'', Hide] subjectOptions = Pending \<and>
   fst (runPrompts noNLS
          [(CONFIGURABLE_QUICK_PICK ''scope'' scopeOptions, remembersApi),
           (INPUT_BOX ''subject'' subjectOptions, dismisses)] Map.empty scopesCore) = Pending \<and>
   configuration_get scopesCore ''scopes'' = [''core''] \<and>
   configuration_get
     (snd (runPrompts noNLS
             [(CONFIGURABLE_QUICK_PICK ''scope'' scopeOptions, remembersApi),
              (INPUT_BOX ''subject'' subjectOptions, dismisses)] Map.empty scopesCore))
     ''scopes'' = [''core'', ''api'']"
proof -
  have "runPrompts noNLS
          [(CONFIGURABLE_QUICK_PICK ''scope'' scopeOptions, remembersApi),
           (INPUT_BOX ''subject'' subjectOptions, dismisses)] Map.empty scopesCore =
        (Pending, configuration_update scopesCore ''scopes'' [''core'', ''api''])"
    by (simp add: scope_step_remembers await_def dismisses_def subject_step_dismissed)
  then show ?thesis
    by (simp add: subject_step_dismissed configuration_get_def configuration_update_def
          scopesCore_def)
qed

theorem dismissal_suspends_sequence_witness:
  "createInputBox [ChangeValue ''add au''] subjectOptions = Pending \<and>
   createInputBox ([ChangeValue ''add au''] @ Hide # [Accept]) subjectOptions = Pending \<and>
   createQuickPick (picks dismisses) typeOptions = Pending \<and>
   promptTypes noNLS dismisses (CONFIGURABLE_QUICK_PICK ''scope'' scopeOptions) scopesCore =
     (Pending, scopesCore) \<and>
   runPrompts noNLS
     ([(CONFIGURABLE_QUICK_PICK ''scope'' scopeOptions, remembersApi)] @
      (INPUT_BOX ''subject'' subjectOptions, dismisses) # []) Map.empty scopesCore =
     (Pending, configuration_update scopesCore ''scopes'' [''core'', ''api'']) \<and>
   conventionalCommits_inputBox subjectOnly
     (fst (runPrompts noNLS
             ([(CONFIGURABLE_QUICK_PICK ''scope'' scopeOptions, remembersApi)] @
              (INPUT_BOX ''subject'' subjectOptions, dismisses) # []) Map.empty scopesCore))
     ''draft'' = ''draft''"
proof -
  let ?before = "[(CONFIGURABLE_QUICK_PICK ''scope'' scopeOptions, remembersApi)]"
  let ?cfg1 = "configuration_update scopesCore ''scopes'' [''core'', ''api'']"
  have before: "runPrompts noNLS ?before Map.empty scopesCore =
                  (Resolved (Map.empty(''scope'' \<mapsto> ''api'')), ?cfg1)"
    by (simp add: scope_step_remembers await_def)
  have pending: "createInputBox [ChangeValue ''add au''] subjectOptions = Pending"
    by (simp add: inputBox_eval subjectOptions_def required_def)
  have typed: "typed dismisses = [ChangeValue ''add au''] @ Hide # []"
    and picks: "picks dismisses (case qp_noneItem typeOptions of None \<Rightarrow> qp_items typeOptions
                                 | Some n \<Rightarrow> n # qp_items typeOptions) = Pending"
    by (simp_all add: dismisses_def unanswered_def)
  note inst = dismissal_suspends_sequence [where nls = noNLS and before = ?before
      and answers = Map.empty and cfg = scopesCore and stored = ?cfg1
      and given = "Map.empty(''scope'' \<mapsto> ''api'')" and u = dismisses
      and opts = subjectOptions and evs = "[ChangeValue ''add au'']"
      and rest = "[]" and qopts = typeOptions and serializer = subjectOnly
      and inputBox_value = "''draft''" and q = "INPUT_BOX ''subject'' subjectOptions"
      and copts = scopeOptions]
  from inst [where evs' = "[Accept]" and name = "''subject''"] pending
  have a: "createInputBox ([ChangeValue ''add au''] @ Hide # [Accept]) subjectOptions = Pending"
    by blast
  from inst [where evs' = "[]" and name = "''subject''"] picks
  have b: "createQuickPick (picks dismisses) typeOptions = Pending"
    by blast
  have "picks dismisses (shownItems noNLS scopeOptions scopesCore) = Pending"
    by (simp add: dismisses_def unanswered_def)
  with inst [where evs' = "[]" and name = "''scope''"]
  have g: "promptTypes noNLS dismisses (CONFIGURABLE_QUICK_PICK ''scope'' scopeOptions) scopesCore =
             (Pending, scopesCore)"
    by blast
  from inst [where evs' = "[]" and name = "''subject''"] before pending typed
  have c: "runPrompts noNLS (?before @ (INPUT_BOX ''subject'' subjectOptions, dismisses) # [])
             Map.empty scopesCore = (Pending, ?cfg1)"
    by blast
  have step: "fst (promptTypes noNLS dismisses (INPUT_BOX ''subject'' subjectOptions) ?cfg1) = Pending"
    by (simp add: dismisses_def subject_step_dismissed)
  from inst [where evs' = "[]" and name = "''subject''"] before step
  have d: "conventionalCommits_inputBox subjectOnly
     (fst (runPrompts noNLS (?before @ (INPUT_BOX ''subject'' subjectOptions, dismisses) # [])
             Map.empty scopesCore)) ''draft'' = ''draft''"
    by blast
  from pending a b g c d show ?thesis
    by (intro conjI)
qed

section \<open>The message serializer: properties\<close>







end
